theory Spec2Isabelle
  imports Main
begin

section \<open>Python values, errors and list indexing\<close>

text \<open>
  The exceptions the modelled functions of \<^verbatim>\<open>txnintegration/utils.py\<close> can raise.
  \<open>ExitError\<close> carries its message; \<open>SystemExit\<close> carries the status given to
  \<^verbatim>\<open>sys.exit\<close>.
\<close>

datatype error =
    AssertionError
  | IndexError
  | ZeroDivisionError
  | AttributeError
  | TypeError
  | ValueError
  | OverflowError
  | IOError string
  | ExitError string
  | SystemExit int

text \<open>
  \<^verbatim>\<open>xs[i]\<close> on a Python list: an index in \<open>[-len, 0)\<close> counts from the end, an
  index outside \<open>[-len, len)\<close> raises \<^verbatim>\<open>IndexError\<close>.
\<close>

definition py_index :: "'a list \<Rightarrow> int \<Rightarrow> error + 'a" where
  "py_index xs i =
     (let len = int (length xs);
          j = (if i < 0 then len + i else i)
      in if 0 \<le> j \<and> j < len then Inr (xs ! nat j) else Inl IndexError)"

text \<open>\<^verbatim>\<open>range(n)\<close> for an integer \<open>n\<close>: empty when \<open>n \<le> 0\<close>.\<close>

definition py_range :: "int \<Rightarrow> int list" where
  "py_range n = map int [0..<nat n]"

text \<open>
  A list comprehension whose element expression may raise: the first exception
  leaves the comprehension.
\<close>

fun traverse :: "('a \<Rightarrow> error + 'b) \<Rightarrow> 'a list \<Rightarrow> error + 'b list" where
  "traverse f [] = Inr []"
| "traverse f (x # xs) =
     (case f x of
        Inl e \<Rightarrow> Inl e
      | Inr y \<Rightarrow> (case traverse f xs of Inl e \<Rightarrow> Inl e | Inr ys \<Rightarrow> Inr (y # ys)))"

text \<open>\<^verbatim>\<open>str(i)\<close> for a non-negative integer: its decimal digits.\<close>

definition digit_char :: "nat \<Rightarrow> char" where
  "digit_char d = char_of (48 + d)"

fun str_nat :: "nat \<Rightarrow> string" where
  "str_nat n = (if n < 10 then [digit_char n] else str_nat (n div 10) @ [digit_char (n mod 10)])"

declare str_nat.simps [simp del]

section \<open>StaticNetworkConfig\<close>

text \<open>One entry of \<^verbatim>\<open>self.nodes\<close>: a dictionary with exactly these five keys.\<close>

record node =
  ShortName :: string
  Identifier :: string
  Host :: string
  Port :: int
  HttpPort :: int

record StaticNetworkConfig =
  n_mag :: int
  q_mag :: int
  keys :: "string list"
  nodes :: "node list"
  use_quorum :: bool

text \<open>
  \<^verbatim>\<open>StaticNetworkConfig.__init__\<close>. The two functions of \<^verbatim>\<open>pybitcointools\<close> it
  reaches are parameters: \<open>generate_private_key k\<close> is the key returned by the
  \<open>k\<close>-th call of \<^verbatim>\<open>generate_private_key()\<close> (a random source, read in call
  order), and \<open>get_address\<close> is \<^verbatim>\<open>get_address_from_private_key_wif\<close>.
  The three \<^verbatim>\<open>assert\<close> statements come before any key is drawn.
\<close>

definition StaticNetworkConfig_init ::
  "(nat \<Rightarrow> string) \<Rightarrow> (string \<Rightarrow> string) \<Rightarrow> int \<Rightarrow> int option \<Rightarrow> string \<Rightarrow> int \<Rightarrow> int \<Rightarrow> bool
     \<Rightarrow> error + StaticNetworkConfig" where
  "StaticNetworkConfig_init generate_private_key get_address n q base_name base_port
       base_http_port use_q =
     (if \<not> 1 \<le> n then Inl AssertionError
      else
        let qm = (case q of None \<Rightarrow> n | Some q' \<Rightarrow> q') in
        if \<not> 1 \<le> qm then Inl AssertionError
        else if \<not> qm \<le> n then Inl AssertionError
        else
          let ks = map generate_private_key [0..<nat n];
              nds = map (\<lambda>(idx, wif).
                      \<lparr> ShortName = base_name @ ''-'' @ str_nat idx,
                        Identifier = get_address wif,
                        Host = ''localhost'',
                        Port = base_port + int idx,
                        HttpPort = base_http_port + int idx \<rparr>)
                    (enumerate 0 ks)
          in Inr \<lparr> n_mag = n, q_mag = qm, keys = ks, nodes = nds, use_quorum = use_q \<rparr>)"

text \<open>
  \<^verbatim>\<open>get_quorum\<close>. The \<^verbatim>\<open>return\<close> statement is inside the
  \<^verbatim>\<open>if self.use_quorum:\<close> block, so the other path falls off the end of the
  function and yields Python's \<^verbatim>\<open>None\<close> (here \<open>Inr None\<close>).
  \<^verbatim>\<open>len(set(peers))\<close> is the number of distinct peers.
\<close>

definition get_quorum ::
  "StaticNetworkConfig \<Rightarrow> int \<Rightarrow> string list option \<Rightarrow> error + string list option" where
  "get_quorum self tgt dfl =
     (let dfl = (case dfl of None \<Rightarrow> [] | Some d \<Rightarrow> d);
          peers = dfl
      in if use_quorum self then
           let peers = map ShortName (nodes self) in
           if length peers \<noteq> length (remdups peers) then Inl AssertionError
           else
             map_sum id Some
               (traverse
                  (\<lambda>i. if n_mag self = 0 then Inl ZeroDivisionError
                       else py_index peers ((tgt + i) mod n_mag self))
                  (py_range (q_mag self)))
         else Inr None)"

definition get_node :: "StaticNetworkConfig \<Rightarrow> int \<Rightarrow> error + node" where
  "get_node self idx = py_index (nodes self) idx"

definition get_key :: "StaticNetworkConfig \<Rightarrow> int \<Rightarrow> error + string" where
  "get_key self idx = py_index (keys self) idx"

text \<open>
  Concrete stand-ins for the two \<^verbatim>\<open>pybitcointools\<close> functions, used only where
  a topology is evaluated at a concrete input.
\<close>

definition sample_private_key :: "nat \<Rightarrow> string" where
  "sample_private_key k = ''wif'' @ str_nat k"

definition sample_address :: "string \<Rightarrow> string" where
  "sample_address wif = ''addr-'' @ wif"

text \<open>
  The four-node network of the specification's example, written out:
  \<^verbatim>\<open>StaticNetworkConfig(4, q=2, use_quorum=True)\<close> over the stand-in keys.
\<close>

definition sample_network :: StaticNetworkConfig where
  "sample_network =
     \<lparr> n_mag = 4, q_mag = 2,
       keys = [''wif0'', ''wif1'', ''wif2'', ''wif3''],
       nodes =
         [\<lparr> ShortName = ''validator-0'', Identifier = ''addr-wif0'', Host = ''localhost'',
             Port = 9000, HttpPort = 8000 \<rparr>,
          \<lparr> ShortName = ''validator-1'', Identifier = ''addr-wif1'', Host = ''localhost'',
             Port = 9001, HttpPort = 8001 \<rparr>,
          \<lparr> ShortName = ''validator-2'', Identifier = ''addr-wif2'', Host = ''localhost'',
             Port = 9002, HttpPort = 8002 \<rparr>,
          \<lparr> ShortName = ''validator-3'', Identifier = ''addr-wif3'', Host = ''localhost'',
             Port = 9003, HttpPort = 8003 \<rparr>],
       use_quorum = True \<rparr>"

text \<open>Reading a decimal string back, to show that \<open>str_nat\<close> loses nothing.\<close>

definition digit_val :: "char \<Rightarrow> nat" where
  "digit_val c = of_char c - 48"

definition nat_of_digits :: "string \<Rightarrow> nat" where
  "nat_of_digits s = foldl (\<lambda>a c. 10 * a + digit_val c) 0 s"

section \<open>human_size\<close>


















section \<open>Logging setup\<close>

















section \<open>StatsCollector and PlatformStats\<close>

text \<open>
  A named tuple: the name of its type and its fields in order
  (\<^verbatim>\<open>_asdict()\<close> is \<open>asdict\<close>). Field values are numbers of a type \<open>'a\<close>.
\<close>

record 'a namedtuple =
  tname :: string
  asdict :: "(string \<times> 'a) list"

definition nt_attr :: "'a namedtuple \<Rightarrow> string \<Rightarrow> error + 'a" where
  "nt_attr nt name = (case map_of (asdict nt) name of None \<Rightarrow> Inl AttributeError | Some v \<Rightarrow> Inr v)"

definition CpuStats :: "'a \<Rightarrow> 'a \<Rightarrow> 'a \<Rightarrow> 'a \<Rightarrow> 'a namedtuple" where
  "CpuStats percent user_time system_time idle_time =
     \<lparr> tname = ''scpu'',
       asdict = [(''percent'', percent), (''user_time'', user_time),
                 (''system_time'', system_time), (''idle_time'', idle_time)] \<rparr>"

text \<open>What the five \<^verbatim>\<open>psutil\<close> calls of \<^verbatim>\<open>get_stats\<close> return at one instant.\<close>

record 'a psutil =
  cpu_percent :: 'a
  cpu_times :: "'a namedtuple"
  virtual_memory :: "'a namedtuple"
  disk_io_counters :: "'a namedtuple"
  net_io_counters :: "'a namedtuple"

text \<open>
  A \<^verbatim>\<open>PlatformStats\<close> object. The four snapshot attributes do not exist before
  the first \<^verbatim>\<open>get_stats\<close> (\<open>None\<close>).
\<close>

record 'a PlatformStats =
  statslist :: "'a namedtuple list"
  interval_net_bytes_sent :: 'a
  interval_net_bytes_recv :: 'a
  previous_net_bytes_sent :: 'a
  previous_net_bytes_recv :: 'a
  cpu_stats :: "'a namedtuple option"
  vmem_stats :: "'a namedtuple option"
  disk_stats :: "'a namedtuple option"
  net_stats :: "'a namedtuple option"

text \<open>
  \<^verbatim>\<open>get_stats\<close>, with the \<^verbatim>\<open>psutil\<close> readings as input. An attribute missing
  from a reading raises \<^verbatim>\<open>AttributeError\<close> and leaves the method.
\<close>

definition get_stats :: "'a::minus psutil \<Rightarrow> 'a PlatformStats \<Rightarrow> error + 'a PlatformStats" where
  "get_stats ps self =
     (let cpct = cpu_percent ps;
          ctimes = cpu_times ps
      in
      case nt_attr ctimes ''user'' of Inl e \<Rightarrow> Inl e | Inr user \<Rightarrow>
      case nt_attr ctimes ''system'' of Inl e \<Rightarrow> Inl e | Inr system \<Rightarrow>
      case nt_attr ctimes ''idle'' of Inl e \<Rightarrow> Inl e | Inr idle \<Rightarrow>
      let cpu = CpuStats cpct user system idle;
          vmem = virtual_memory ps;
          disk = disk_io_counters ps;
          net = net_io_counters ps;
          self = self\<lparr>cpu_stats := Some cpu, vmem_stats := Some vmem,
                      disk_stats := Some disk, net_stats := Some net\<rparr>;
          self = self\<lparr>statslist := [cpu, vmem, disk, net]\<rparr>
      in
      case nt_attr net ''bytes_sent'' of Inl e \<Rightarrow> Inl e | Inr bytes_sent \<Rightarrow>
      let self = self\<lparr>interval_net_bytes_sent := bytes_sent - previous_net_bytes_sent self\<rparr> in
      case nt_attr net ''bytes_recv'' of Inl e \<Rightarrow> Inl e | Inr bytes_recv \<Rightarrow>
      let self = self\<lparr>interval_net_bytes_recv := bytes_recv - previous_net_bytes_recv self\<rparr>;
          self = self\<lparr>previous_net_bytes_sent := bytes_sent\<rparr>;
          self = self\<lparr>previous_net_bytes_recv := bytes_recv\<rparr>
      in Inr self)"

text \<open>\<^verbatim>\<open>PlatformStats.__init__\<close>: empty list, zero counters, one \<^verbatim>\<open>get_stats\<close>.\<close>

definition PlatformStats_init :: "'a::{zero,minus} psutil \<Rightarrow> error + 'a PlatformStats" where
  "PlatformStats_init ps =
     get_stats ps
       \<lparr> statslist = [],
         interval_net_bytes_sent = 0, interval_net_bytes_recv = 0,
         previous_net_bytes_sent = 0, previous_net_bytes_recv = 0,
         cpu_stats = None, vmem_stats = None, disk_stats = None, net_stats = None \<rparr>"

text \<open>
  \<^verbatim>\<open>p_stats[key] = value\<close> on an \<^verbatim>\<open>OrderedDict\<close>: an existing key keeps its
  position, a new key goes to the end.
\<close>

fun odict_set :: "('k \<times> 'v) list \<Rightarrow> 'k \<Rightarrow> 'v \<Rightarrow> ('k \<times> 'v) list" where
  "odict_set [] k v = [(k, v)]"
| "odict_set ((k', v') # d) k v = (if k' = k then (k, v) # d else (k', v') # odict_set d k v)"

text \<open>
  The loop of \<^verbatim>\<open>get_data_as_dict\<close>: the key is the type name of the loop
  variable \<^verbatim>\<open>stat\<close>, the value is \<^verbatim>\<open>self.cpu_stats._asdict()\<close> on every
  iteration.
\<close>

fun get_data_as_dict_loop ::
  "'a PlatformStats \<Rightarrow> 'a namedtuple list \<Rightarrow> (string \<times> (string \<times> 'a) list) list
     \<Rightarrow> error + (string \<times> (string \<times> 'a) list) list" where
  "get_data_as_dict_loop self [] p_stats = Inr p_stats"
| "get_data_as_dict_loop self (stat # rest) p_stats =
     (let statname = tname stat in
      case cpu_stats self of
        None \<Rightarrow> Inl AttributeError
      | Some cpu \<Rightarrow> get_data_as_dict_loop self rest (odict_set p_stats statname (asdict cpu)))"

definition get_data_as_dict ::
  "'a PlatformStats \<Rightarrow> error + (string \<times> (string \<times> 'a) list) list" where
  "get_data_as_dict self = get_data_as_dict_loop self (statslist self) []"

text \<open>A reading with distinct values in every group, for concrete evaluation.\<close>

definition sample_psutil :: "int \<Rightarrow> int psutil" where
  "sample_psutil sent =
     \<lparr> cpu_percent = 12,
       cpu_times = \<lparr> tname = ''scputimes'',
                     asdict = [(''user'', 700), (''nice'', 3), (''system'', 200), (''idle'', 9000)] \<rparr>,
       virtual_memory = \<lparr> tname = ''svmem'',
                          asdict = [(''total'', 8192), (''available'', 4096)] \<rparr>,
       disk_io_counters = \<lparr> tname = ''sdiskio'',
                            asdict = [(''read_count'', 40), (''write_count'', 60)] \<rparr>,
       net_io_counters = \<lparr> tname = ''snetio'',
                           asdict = [(''bytes_sent'', sent), (''bytes_recv'', 2 * sent)] \<rparr> \<rparr>"

section \<open>Basic facts\<close>

lemma py_index_in_range:
  "0 \<le> i \<Longrightarrow> i < int (length xs) \<Longrightarrow> py_index xs i = Inr (xs ! nat i)"
  by (simp add: py_index_def)

lemma py_index_negative:
  "- int (length xs) \<le> i \<Longrightarrow> i < 0 \<Longrightarrow> py_index xs i = Inr (xs ! nat (int (length xs) + i))"
  by (simp add: py_index_def)

lemma py_index_outside:
  "int (length xs) \<le> i \<or> i < - int (length xs) \<Longrightarrow> py_index xs i = Inl IndexError"
  by (auto simp: py_index_def Let_def)

lemma distinct_py_range: "distinct (py_range q)"
  by (simp add: py_range_def distinct_map inj_on_def)

lemma py_range_2: "py_range 2 = [0, 1]"
  by code_simp

lemma upt_0_4: "[0..<4] = [0, 1, 2, 3::nat]"
  by code_simp

lemma traverse_Inr:
  "(\<And>x. x \<in> set xs \<Longrightarrow> f x = Inr (g x)) \<Longrightarrow> traverse f xs = Inr (map g xs)"
  by (induction xs) auto

subsection \<open>Decimal rendering is injective\<close>

lemma digit_val_digit_char: "d < 10 \<Longrightarrow> digit_val (digit_char d) = d"
  by (simp add: digit_val_def digit_char_def)

lemma nat_of_digits_snoc: "nat_of_digits (s @ [c]) = 10 * nat_of_digits s + digit_val c"
  by (simp add: nat_of_digits_def)

lemma nat_of_digits_str_nat: "nat_of_digits (str_nat n) = n"
proof (induction n rule: str_nat.induct)
  case (1 n)
  show ?case
  proof (cases "n < 10")
    case True
    then show ?thesis
      by (simp add: str_nat.simps [of n] nat_of_digits_def digit_val_digit_char)
  next
    case False
    with 1 have "nat_of_digits (str_nat (n div 10)) = n div 10" by simp
    with False show ?thesis
      by (simp add: str_nat.simps [of n] nat_of_digits_snoc digit_val_digit_char)
  qed
qed

lemma str_nat_inj: "str_nat m = str_nat n \<Longrightarrow> m = n"
  by (metis nat_of_digits_str_nat)

lemma str_nat_small:
  "str_nat 0 = ''0''" "str_nat 1 = ''1''" "str_nat (Suc 0) = ''1''"
  "str_nat 2 = ''2''" "str_nat 3 = ''3''"
  "str_nat (Suc (Suc 0)) = ''2''" "str_nat (Suc (Suc (Suc 0))) = ''3''"
  by code_simp+

lemma distinct_names: "distinct (map (\<lambda>idx. base_name @ ''-'' @ str_nat idx) [0..<m])"
  by (auto simp: distinct_map inj_on_def dest: str_nat_inj)

subsection \<open>The shape of a constructed network\<close>

lemma init_nodes:
  "StaticNetworkConfig_init gk ga n q base_name base_port base_http_port use_q = Inr t \<Longrightarrow>
   nodes t = map (\<lambda>idx. \<lparr> ShortName = base_name @ ''-'' @ str_nat idx,
                        Identifier = ga (gk idx),
                        Host = ''localhost'',
                        Port = base_port + int idx,
                        HttpPort = base_http_port + int idx \<rparr>) [0..<nat n]"
  by (auto simp: StaticNetworkConfig_init_def Let_def enumerate_eq_zip zip_map2 zip_same_conv_map
      split: if_splits)

lemma init_fields:
  "StaticNetworkConfig_init gk ga n q base_name base_port base_http_port use_q = Inr t \<Longrightarrow>
   n_mag t = n \<and> q_mag t = (case q of None \<Rightarrow> n | Some q' \<Rightarrow> q') \<and>
   keys t = map gk [0..<nat n] \<and> use_quorum t = use_q \<and> 1 \<le> n \<and> 1 \<le> q_mag t \<and> q_mag t \<le> n"
  by (auto simp: StaticNetworkConfig_init_def Let_def split: if_splits)

lemma init_peers:
  "StaticNetworkConfig_init gk ga n q base_name base_port base_http_port use_q = Inr t \<Longrightarrow>
   map ShortName (nodes t) = map (\<lambda>idx. base_name @ ''-'' @ str_nat idx) [0..<nat n]"
  by (simp add: init_nodes comp_def)

lemma sample_network_init:
  "StaticNetworkConfig_init sample_private_key sample_address 4 (Some 2) ''validator'' 9000 8000 True
     = Inr sample_network"
  by (simp add: StaticNetworkConfig_init_def sample_network_def sample_private_key_def
      sample_address_def str_nat_small upt_0_4)

lemma get_quorum_init:
  assumes t: "StaticNetworkConfig_init gk ga n q base_name base_port base_http_port True = Inr t"
  shows "get_quorum t tgt dfl =
           Inr (Some (map (\<lambda>i. map ShortName (nodes t) ! nat ((tgt + i) mod n)) (py_range (q_mag t))))"
proof -
  let ?peers = "map ShortName (nodes t)"
  from t have f: "n_mag t = n" "use_quorum t" "1 \<le> n"
    using init_fields [OF t] by simp_all
  have peers: "?peers = map (\<lambda>idx. base_name @ ''-'' @ str_nat idx) [0..<nat n]"
    by (rule init_peers [OF t])
  have d: "distinct ?peers"
    unfolding peers by (rule distinct_names)
  have len: "int (length ?peers) = n"
    using f(3) by (simp add: peers)
  have ix: "py_index ?peers ((tgt + i) mod n) = Inr (?peers ! nat ((tgt + i) mod n))" for i
    using f(3) len by (intro py_index_in_range) simp_all
  have "traverse (\<lambda>i. if n_mag t = 0 then Inl ZeroDivisionError
                       else py_index ?peers ((tgt + i) mod n_mag t)) (py_range (q_mag t))
        = Inr (map (\<lambda>i. ?peers ! nat ((tgt + i) mod n)) (py_range (q_mag t)))"
    using f ix by (intro traverse_Inr) simp
  with d f show ?thesis
    by (simp add: get_quorum_def Let_def distinct_remdups_id)
qed

lemma mod_window_eq:
  assumes e: "(tgt + i) mod n = (tgt + j) mod (n::int)"
    and b: "0 \<le> i" "i < n" "0 \<le> j" "j < n"
  shows "i = j"
proof -
  from e have "n dvd (tgt + i) - (tgt + j)"
    by (simp only: mod_eq_dvd_iff)
  then have d: "n dvd i - j"
    by simp
  then have d': "n dvd j - i"
    by (simp add: dvd_diff_commute)
  show ?thesis
  proof (rule ccontr)
    assume "i \<noteq> j"
    then consider "0 < i - j" | "0 < j - i" by linarith
    then show False
    proof cases
      case 1
      with d have "n \<le> i - j" by (rule zdvd_imp_le)
      with b show False by linarith
    next
      case 2
      with d' have "n \<le> j - i" by (rule zdvd_imp_le)
      with b show False by linarith
    qed
  qed
qed

lemma window_inj:
  assumes "q \<le> n" "1 \<le> (n::int)"
  shows "inj_on (\<lambda>i. nat ((tgt + i) mod n)) (set (py_range q))"
proof (rule inj_onI)
  fix i j
  assume i: "i \<in> set (py_range q)" and j: "j \<in> set (py_range q)"
    and e: "nat ((tgt + i) mod n) = nat ((tgt + j) mod n)"
  from i j assms have b: "0 \<le> i" "i < n" "0 \<le> j" "j < n"
    by (auto simp: py_range_def)
  from e assms have "(tgt + i) mod n = (tgt + j) mod n"
    by (simp add: nat_eq_iff)
  then show "i = j"
    using b by (rule mod_window_eq)
qed

section \<open>Claims about StaticNetworkConfig\<close>

text \<open>
  C1. The claim: with \<^verbatim>\<open>use_quorum\<close> false, \<^verbatim>\<open>get_quorum\<close> returns the supplied
  fallback sequence unchanged. What the code does instead: for every network, every
  target index and every fallback list, the call returns \<^verbatim>\<open>None\<close>, because the only
  \<^verbatim>\<open>return\<close> of the method is inside the \<^verbatim>\<open>if self.use_quorum:\<close> block. The
  fallback is bound to \<^verbatim>\<open>peers\<close> and then dropped.
\<close>

theorem get_quorum_fallback_returns_None:
  "get_quorum (t\<lparr>use_quorum := False\<rparr>) tgt (Some fallback) = Inr None
   \<and> get_quorum (t\<lparr>use_quorum := False\<rparr>) tgt (Some fallback) \<noteq> Inr (Some fallback)"
  by (simp add: get_quorum_def)

text \<open>
  C2, as the claim states it: every accessor fails with an index error at every index
  outside \<open>[0, n)\<close>. On the four-node network this is false at index \<open>-1\<close> for
  \<^verbatim>\<open>get_node\<close> and \<^verbatim>\<open>get_key\<close>, which return the last entry, and at index
  \<open>4 = n\<close> for \<^verbatim>\<open>get_quorum\<close>, which wraps around to the window of node 0.
\<close>

theorem accessors_out_of_range_counterexample:
  "get_node sample_network (- 1)
     = Inr \<lparr> ShortName = ''validator-3'', Identifier = ''addr-wif3'', Host = ''localhost'',
             Port = 9003, HttpPort = 8003 \<rparr>
   \<and> get_key sample_network (- 1) = Inr ''wif3''
   \<and> get_quorum sample_network 4 None = Inr (Some [''validator-0'', ''validator-1''])"
  by (simp add: get_node_def get_key_def get_quorum_def sample_network_def py_index_def py_range_2)

text \<open>
  C2, amended. On a constructed network of \<open>n\<close> nodes, \<^verbatim>\<open>get_node\<close> and
  \<^verbatim>\<open>get_key\<close> raise \<^verbatim>\<open>IndexError\<close> when \<open>idx \<ge> n\<close> or \<open>idx < -n\<close>; for
  \<open>-n \<le> idx < 0\<close> they return the entry at position \<open>n + idx\<close>, and for
  \<open>0 \<le> idx < n\<close> the entry at \<open>idx\<close>. \<^verbatim>\<open>get_quorum\<close> raises at no index at all:
  its result is the one for \<open>idx mod n\<close>. The accessors are functions of the network
  value and assign to none of its attributes.
\<close>

theorem accessors_index_behaviour:
  assumes t: "StaticNetworkConfig_init gk ga n q base_name base_port base_http_port use_q = Inr t"
  shows "(n \<le> idx \<or> idx < - n \<longrightarrow>
            get_node t idx = Inl IndexError \<and> get_key t idx = Inl IndexError)
       \<and> (- n \<le> idx \<and> idx < 0 \<longrightarrow>
            get_node t idx = Inr (nodes t ! nat (n + idx))
            \<and> get_key t idx = Inr (keys t ! nat (n + idx)))
       \<and> (0 \<le> idx \<and> idx < n \<longrightarrow>
            get_node t idx = Inr (nodes t ! nat idx) \<and> get_key t idx = Inr (keys t ! nat idx))
       \<and> (\<exists>r. get_quorum t idx dfl = Inr r)
       \<and> get_quorum t idx dfl = get_quorum t (idx mod n) dfl"
proof -
  have n1: "1 \<le> n" and ks: "keys t = map gk [0..<nat n]" and uq: "use_quorum t = use_q"
    using init_fields [OF t] by simp_all
  have ln: "int (length (nodes t)) = n"
    using n1 by (simp add: init_nodes [OF t])
  have lk: "int (length (keys t)) = n"
    using n1 by (simp add: ks)
  have out: "n \<le> idx \<or> idx < - n \<longrightarrow>
               get_node t idx = Inl IndexError \<and> get_key t idx = Inl IndexError"
    unfolding get_node_def get_key_def using ln lk by (simp add: py_index_outside)
  have neg: "- n \<le> idx \<and> idx < 0 \<longrightarrow>
               get_node t idx = Inr (nodes t ! nat (n + idx))
               \<and> get_key t idx = Inr (keys t ! nat (n + idx))"
    unfolding get_node_def get_key_def
    using py_index_negative [of "nodes t" idx] py_index_negative [of "keys t" idx] ln lk
    by simp
  have pos: "0 \<le> idx \<and> idx < n \<longrightarrow>
               get_node t idx = Inr (nodes t ! nat idx) \<and> get_key t idx = Inr (keys t ! nat idx)"
    unfolding get_node_def get_key_def
    using py_index_in_range [of idx "nodes t"] py_index_in_range [of idx "keys t"] ln lk
    by simp
  have quo: "(\<exists>r. get_quorum t idx dfl = Inr r)
             \<and> get_quorum t idx dfl = get_quorum t (idx mod n) dfl"
  proof (cases use_q)
    case True
    with t have t': "StaticNetworkConfig_init gk ga n q base_name base_port base_http_port True = Inr t"
      by simp
    have "(idx mod n + i) mod n = (idx + i) mod n" for i
      by (simp add: mod_add_left_eq)
    then show ?thesis
      by (simp add: get_quorum_init [OF t'])
  next
    case False
    with uq show ?thesis
      by (simp add: get_quorum_def)
  qed
  from out neg pos quo show ?thesis by blast
qed

theorem accessors_index_behaviour_witness:
  "get_node sample_network 4 = Inl IndexError
   \<and> get_key sample_network 4 = Inl IndexError
   \<and> get_node sample_network (- 1) = Inr (nodes sample_network ! 3)
   \<and> get_key sample_network (- 1) = Inr (keys sample_network ! 3)
   \<and> (\<exists>r. get_quorum sample_network 4 None = Inr r)"
proof -
  note hi = accessors_index_behaviour [OF sample_network_init, of 4 None]
  note lo = accessors_index_behaviour [OF sample_network_init, of "- 1" None]
  from hi have a: "get_node sample_network 4 = Inl IndexError \<and> get_key sample_network 4 = Inl IndexError"
    by linarith
  from hi have b: "\<exists>r. get_quorum sample_network 4 None = Inr r"
    by (elim conjE)
  from lo have "get_node sample_network (- 1) = Inr (nodes sample_network ! nat (4 + - 1))
      \<and> get_key sample_network (- 1) = Inr (keys sample_network ! nat (4 + - 1))"
    by linarith
  moreover have "nat (4 + - 1) = 3"
    by simp
  ultimately have c: "get_node sample_network (- 1) = Inr (nodes sample_network ! 3)
      \<and> get_key sample_network (- 1) = Inr (keys sample_network ! 3)"
    by (simp only:)
  from a b c show ?thesis by (simp only: simp_thms)
qed

text \<open>
  C3. Construction fails when \<open>n < 1\<close>, or \<open>q < 1\<close>, or \<open>q > n\<close>: an
  \<^verbatim>\<open>assert\<close> raises (\<^verbatim>\<open>AssertionError\<close> is the code's form of the spec's
  invalid-configuration error) and the result carries no network. All three
  assertions precede the key generation and the building of the roster.
\<close>

theorem init_rejects_invalid_sizes:
  "n < 1 \<or> (\<exists>q'. q = Some q' \<and> (q' < 1 \<or> n < q')) \<Longrightarrow>
   StaticNetworkConfig_init gk ga n q base_name base_port base_http_port use_q = Inl AssertionError"
  by (auto simp: StaticNetworkConfig_init_def Let_def)

theorem init_rejects_invalid_sizes_witness:
  "StaticNetworkConfig_init sample_private_key sample_address 0 None ''validator'' 9000 8000 False
     = Inl AssertionError
   \<and> StaticNetworkConfig_init sample_private_key sample_address 5 (Some 6) ''validator'' 9000 8000 False
     = Inl AssertionError
   \<and> StaticNetworkConfig_init sample_private_key sample_address 5 (Some 0) ''validator'' 9000 8000 False
     = Inl AssertionError"
  using init_rejects_invalid_sizes [of 0 None sample_private_key sample_address "''validator''" 9000 8000 False]
    init_rejects_invalid_sizes [of 5 "Some 6" sample_private_key sample_address "''validator''" 9000 8000 False]
    init_rejects_invalid_sizes [of 5 "Some 0" sample_private_key sample_address "''validator''" 9000 8000 False]
  by simp

text \<open>
  C4. On a network constructed with \<^verbatim>\<open>use_quorum\<close> true (so \<open>1 \<le> q \<le> n\<close>, with
  \<open>q\<close> defaulting to \<open>n\<close>) and for a target index in \<open>[0, n)\<close>, \<^verbatim>\<open>get_quorum\<close>
  returns a list of exactly \<open>q\<close> names; entry \<open>i\<close> is \<open>peers[(tgt + i) mod n]\<close>
  where \<open>peers\<close> are the short names of the roster in order; the first entry is
  \<open>peers[tgt]\<close>; every entry is a roster name; the entries are pairwise distinct.
\<close>

theorem get_quorum_full_membership:
  assumes t: "StaticNetworkConfig_init gk ga n q base_name base_port base_http_port True = Inr t"
    and tgt: "0 \<le> tgt" "tgt < n"
  shows "\<exists>qs. get_quorum t tgt dfl = Inr (Some qs)
           \<and> int (length qs) = (case q of None \<Rightarrow> n | Some q' \<Rightarrow> q')
           \<and> (\<forall>i<length qs. qs ! i = map ShortName (nodes t) ! nat ((tgt + int i) mod n))
           \<and> hd qs = map ShortName (nodes t) ! nat tgt
           \<and> qs \<noteq> []
           \<and> set qs \<subseteq> set (map ShortName (nodes t))
           \<and> distinct qs"
proof -
  let ?peers = "map ShortName (nodes t)"
  let ?q = "q_mag t"
  let ?qs = "map (\<lambda>i. ?peers ! nat ((tgt + i) mod n)) (py_range ?q)"
  have qm: "?q = (case q of None \<Rightarrow> n | Some q' \<Rightarrow> q')" and n1: "1 \<le> n"
    and q1: "1 \<le> ?q" and qn: "?q \<le> n"
    using init_fields [OF t] by simp_all
  have g: "get_quorum t tgt dfl = Inr (Some ?qs)"
    by (rule get_quorum_init [OF t])
  have peers: "?peers = map (\<lambda>idx. base_name @ ''-'' @ str_nat idx) [0..<nat n]"
    by (rule init_peers [OF t])
  have d: "distinct ?peers"
    unfolding peers by (rule distinct_names)
  have len: "length ?peers = nat n"
    by (simp add: peers)
  have l: "int (length ?qs) = (case q of None \<Rightarrow> n | Some q' \<Rightarrow> q')"
    using q1 qm by (simp add: py_range_def)
  have nth: "\<forall>i<length ?qs. ?qs ! i = ?peers ! nat ((tgt + int i) mod n)"
    by (simp add: py_range_def)
  have pr: "py_range ?q = 0 # map int [1..<nat ?q]"
    using q1 by (simp add: py_range_def upt_conv_Cons)
  then have h: "hd ?qs = ?peers ! nat tgt"
    using tgt by simp
  from pr have ne: "?qs \<noteq> []"
    by simp
  have bound: "nat ((tgt + i) mod n) < length ?peers" for i
    using n1 len by (simp add: nat_less_iff)
  have s: "set ?qs \<subseteq> set ?peers"
  proof
    fix x
    assume "x \<in> set ?qs"
    then obtain i where "x = ?peers ! nat ((tgt + i) mod n)"
      by (auto simp del: nth_map)
    with nth_mem [OF bound [of i]] show "x \<in> set ?peers"
      by simp
  qed
  have "distinct (map (\<lambda>i. nat ((tgt + i) mod n)) (py_range ?q))"
    using window_inj [OF qn n1] by (simp add: distinct_map distinct_py_range)
  then have "distinct (map ((!) ?peers) (map (\<lambda>i. nat ((tgt + i) mod n)) (py_range ?q)))"
    using d bound
    by (subst distinct_map) (auto simp: inj_on_def nth_eq_iff_index_eq simp del: nth_map)
  then have dq: "distinct ?qs"
    by (simp add: comp_def)
  from g l nth h ne s dq show ?thesis by blast
qed

theorem get_quorum_full_membership_witness:
  "(0::int) \<le> 3 \<and> (3::int) < 4
   \<and> (\<exists>qs. get_quorum sample_network 3 None = Inr (Some qs)
         \<and> int (length qs) = 2
         \<and> (\<forall>i<length qs. qs ! i = map ShortName (nodes sample_network) ! nat ((3 + int i) mod 4))
         \<and> hd qs = ''validator-3''
         \<and> qs \<noteq> []
         \<and> set qs \<subseteq> set (map ShortName (nodes sample_network))
         \<and> distinct qs)"
  using get_quorum_full_membership [OF sample_network_init, of 3 None]
  by (simp add: sample_network_def)

text \<open>
  C5. For \<open>n \<ge> 1\<close> and \<open>1 \<le> q \<le> n\<close> construction succeeds; the roster and the key
  list both have \<open>n\<close> entries; node \<open>i\<close> is named \<open>base_name-i\<close>, has ports
  \<open>base_port + i\<close> and \<open>base_http_port + i\<close>, and its identifier is the address of
  key \<open>i\<close>; short names, ports and HTTP ports are each pairwise distinct over the
  roster.
\<close>

theorem init_roster:
  assumes n: "1 \<le> n" and q: "1 \<le> q" "q \<le> n"
  shows "\<exists>t. StaticNetworkConfig_init gk ga n (Some q) base_name base_port base_http_port use_q = Inr t
           \<and> int (length (nodes t)) = n
           \<and> int (length (keys t)) = n
           \<and> (\<forall>i<nat n. ShortName (nodes t ! i) = base_name @ ''-'' @ str_nat i
                       \<and> Port (nodes t ! i) = base_port + int i
                       \<and> HttpPort (nodes t ! i) = base_http_port + int i
                       \<and> keys t ! i = gk i
                       \<and> Identifier (nodes t ! i) = ga (keys t ! i))
           \<and> distinct (map ShortName (nodes t))
           \<and> distinct (map Port (nodes t))
           \<and> distinct (map HttpPort (nodes t))"
proof -
  from n q obtain t where
    t: "StaticNetworkConfig_init gk ga n (Some q) base_name base_port base_http_port use_q = Inr t"
    by (simp add: StaticNetworkConfig_init_def Let_def)
  have ks: "keys t = map gk [0..<nat n]"
    using init_fields [OF t] by simp
  note nd = init_nodes [OF t]
  have ln: "int (length (nodes t)) = n" and lk: "int (length (keys t)) = n"
    using n by (simp_all add: nd ks)
  have el: "\<forall>i<nat n. ShortName (nodes t ! i) = base_name @ ''-'' @ str_nat i
                       \<and> Port (nodes t ! i) = base_port + int i
                       \<and> HttpPort (nodes t ! i) = base_http_port + int i
                       \<and> keys t ! i = gk i
                       \<and> Identifier (nodes t ! i) = ga (keys t ! i)"
    by (simp add: nd ks)
  have d1: "distinct (map ShortName (nodes t))"
    unfolding init_peers [OF t] by (rule distinct_names)
  have d2: "distinct (map Port (nodes t))"
    by (simp add: nd comp_def distinct_map inj_on_def)
  have d3: "distinct (map HttpPort (nodes t))"
    by (simp add: nd comp_def distinct_map inj_on_def)
  from t ln lk el d1 d2 d3 show ?thesis by blast
qed

theorem init_roster_witness:
  "(1::int) \<le> 4 \<and> (1::int) \<le> 2 \<and> (2::int) \<le> 4
   \<and> int (length (nodes sample_network)) = 4
   \<and> int (length (keys sample_network)) = 4
   \<and> distinct (map ShortName (nodes sample_network))
   \<and> distinct (map Port (nodes sample_network))
   \<and> distinct (map HttpPort (nodes sample_network))"
  using init_roster [of 4 2 sample_private_key sample_address "''validator''" 9000 8000 True]
  by (simp add: sample_network_init)

text \<open>
  C6. \<^verbatim>\<open>StaticNetworkConfig(4, q=2, base_name='validator', base_port=9000,
  base_http_port=8000, use_quorum=True)\<close> names its nodes \<open>validator-0\<close> to
  \<open>validator-3\<close>, gives them ports 9000 to 9003 and HTTP ports 8000 to 8003, and
  \<^verbatim>\<open>get_quorum(2)\<close> on it is \<^verbatim>\<open>['validator-2', 'validator-3']\<close>, whatever the
  generated keys are.
\<close>

theorem validator4_example:
  "\<exists>t. StaticNetworkConfig_init gk ga 4 (Some 2) ''validator'' 9000 8000 True = Inr t
       \<and> map ShortName (nodes t)
           = [''validator-0'', ''validator-1'', ''validator-2'', ''validator-3'']
       \<and> map Port (nodes t) = [9000, 9001, 9002, 9003]
       \<and> map HttpPort (nodes t) = [8000, 8001, 8002, 8003]
       \<and> get_quorum t 2 dfl = Inr (Some [''validator-2'', ''validator-3''])"
  by (simp add: StaticNetworkConfig_init_def upt_0_4 str_nat_small
      get_quorum_def py_range_2 py_index_def)

section \<open>Claims about the collaborators\<close>

subsection \<open>Resource sampler\<close>

text \<open>
  C7. The claim: the dictionary form maps each group name to the fields of that
  group's own snapshot. What the code does instead: the loop of
  \<^verbatim>\<open>get_data_as_dict\<close> stores \<^verbatim>\<open>self.cpu_stats._asdict()\<close> under every
  key, never the fields of the loop variable. On a freshly constructed sampler
  whose memory snapshot is \<open>total = 8192, available = 4096\<close>, all four keys,
  \<open>svmem\<close> included, carry the four CPU fields.
\<close>

theorem get_data_as_dict_uses_cpu_stats:
  "(case PlatformStats_init (sample_psutil 100) of
      Inl e \<Rightarrow> Inl e
    | Inr self \<Rightarrow> get_data_as_dict self)
     = Inr [(''scpu'', [(''percent'', 12), (''user_time'', 700), (''system_time'', 200), (''idle_time'', 9000)]),
            (''svmem'', [(''percent'', 12), (''user_time'', 700), (''system_time'', 200), (''idle_time'', 9000)]),
            (''sdiskio'', [(''percent'', 12), (''user_time'', 700), (''system_time'', 200), (''idle_time'', 9000)]),
            (''snetio'', [(''percent'', 12), (''user_time'', 700), (''system_time'', 200), (''idle_time'', 9000)])]
   \<and> asdict (virtual_memory (sample_psutil 100)) = [(''total'', 8192), (''available'', 4096)]"
  by (simp add: PlatformStats_init_def get_stats_def sample_psutil_def nt_attr_def CpuStats_def
      get_data_as_dict_def Let_def)

lemma get_stats_Inr:
  assumes "nt_attr (cpu_times ps) ''user'' = Inr u"
    and "nt_attr (cpu_times ps) ''system'' = Inr sy"
    and "nt_attr (cpu_times ps) ''idle'' = Inr idl"
    and "nt_attr (net_io_counters ps) ''bytes_sent'' = Inr bs"
    and "nt_attr (net_io_counters ps) ''bytes_recv'' = Inr br"
  shows "get_stats ps self =
     Inr (self\<lparr> statslist := [CpuStats (cpu_percent ps) u sy idl, virtual_memory ps,
                              disk_io_counters ps, net_io_counters ps],
               interval_net_bytes_sent := bs - previous_net_bytes_sent self,
               interval_net_bytes_recv := br - previous_net_bytes_recv self,
               previous_net_bytes_sent := bs,
               previous_net_bytes_recv := br,
               cpu_stats := Some (CpuStats (cpu_percent ps) u sy idl),
               vmem_stats := Some (virtual_memory ps),
               disk_stats := Some (disk_io_counters ps),
               net_stats := Some (net_io_counters ps) \<rparr>)"
  using assms by (simp add: get_stats_def Let_def)

text \<open>
  C8. Two successive calls of \<^verbatim>\<open>get_stats\<close>, on readings that carry the
  attributes the method reads. Each call succeeds and sets \<^verbatim>\<open>statslist\<close> to the
  four snapshots of its own reading, whatever the list held before; the interval
  deltas after a call are the counters of its reading minus the counters stored by
  the call before it. With 100 and then 150 bytes sent the delta after the second
  call is 50 (the witness).
\<close>

theorem get_stats_refresh:
  assumes r1: "nt_attr (cpu_times ps1) ''user'' = Inr u1"
      "nt_attr (cpu_times ps1) ''system'' = Inr sy1"
      "nt_attr (cpu_times ps1) ''idle'' = Inr idl1"
      "nt_attr (net_io_counters ps1) ''bytes_sent'' = Inr sent1"
      "nt_attr (net_io_counters ps1) ''bytes_recv'' = Inr recv1"
    and r2: "nt_attr (cpu_times ps2) ''user'' = Inr u2"
      "nt_attr (cpu_times ps2) ''system'' = Inr sy2"
      "nt_attr (cpu_times ps2) ''idle'' = Inr idl2"
      "nt_attr (net_io_counters ps2) ''bytes_sent'' = Inr sent2"
      "nt_attr (net_io_counters ps2) ''bytes_recv'' = Inr recv2"
  shows "\<exists>s1 s2. get_stats ps1 self = Inr s1 \<and> get_stats ps2 s1 = Inr s2
     \<and> statslist s1 = [CpuStats (cpu_percent ps1) u1 sy1 idl1, virtual_memory ps1,
                        disk_io_counters ps1, net_io_counters ps1]
     \<and> interval_net_bytes_sent s1 = sent1 - previous_net_bytes_sent self
     \<and> interval_net_bytes_recv s1 = recv1 - previous_net_bytes_recv self
     \<and> statslist s2 = [CpuStats (cpu_percent ps2) u2 sy2 idl2, virtual_memory ps2,
                        disk_io_counters ps2, net_io_counters ps2]
     \<and> interval_net_bytes_sent s2 = sent2 - sent1
     \<and> interval_net_bytes_recv s2 = recv2 - recv1"
  by (simp add: get_stats_Inr [OF r1] get_stats_Inr [OF r2])

theorem get_stats_refresh_witness:
  "\<exists>s1 s2. PlatformStats_init (sample_psutil 100) = Inr s1
     \<and> get_stats (sample_psutil 150) s1 = Inr s2
     \<and> interval_net_bytes_sent s1 = 100
     \<and> interval_net_bytes_sent s2 = 50
     \<and> map tname (statslist s2) = [''scpu'', ''svmem'', ''sdiskio'', ''snetio'']"
proof -
  let ?s0 = "\<lparr> statslist = [],
         interval_net_bytes_sent = 0, interval_net_bytes_recv = 0,
         previous_net_bytes_sent = 0, previous_net_bytes_recv = 0,
         cpu_stats = None, vmem_stats = None, disk_stats = None, net_stats = None \<rparr>
       :: int PlatformStats"
  have r: "nt_attr (cpu_times (sample_psutil k)) ''user'' = Inr 700"
    "nt_attr (cpu_times (sample_psutil k)) ''system'' = Inr 200"
    "nt_attr (cpu_times (sample_psutil k)) ''idle'' = Inr 9000"
    "nt_attr (net_io_counters (sample_psutil k)) ''bytes_sent'' = Inr k"
    "nt_attr (net_io_counters (sample_psutil k)) ''bytes_recv'' = Inr (2 * k)" for k
    by (simp_all add: sample_psutil_def nt_attr_def)
  from get_stats_refresh [OF r [of 100] r [of 150], of ?s0]
  obtain s1 s2 where f: "get_stats (sample_psutil 100) ?s0 = Inr s1"
      "get_stats (sample_psutil 150) s1 = Inr s2"
      "interval_net_bytes_sent s1 = 100 - previous_net_bytes_sent ?s0"
      "interval_net_bytes_sent s2 = 150 - 100"
      "statslist s2 = [CpuStats (cpu_percent (sample_psutil 150)) 700 200 9000,
                       virtual_memory (sample_psutil 150), disk_io_counters (sample_psutil 150),
                       net_io_counters (sample_psutil 150)]"
    by blast
  have a: "PlatformStats_init (sample_psutil 100) = Inr s1"
    using f(1) by (simp add: PlatformStats_init_def)
  have b: "interval_net_bytes_sent s1 = 100" "interval_net_bytes_sent s2 = 50"
    using f(3,4) by simp_all
  have c: "map tname (statslist s2) = [''scpu'', ''svmem'', ''sdiskio'', ''snetio'']"
    using f(5) by (simp add: CpuStats_def sample_psutil_def)
  show ?thesis
    by (rule exI [of _ s1], rule exI [of _ s2]) (simp add: a b c f(2))
qed

subsection \<open>Logging configuration\<close>









subsection \<open>human_size\<close>














end
